theory Spec2Isabelle
  imports Main "HOL-Library.Sublist"
begin

section \<open>Strings of the host language\<close>

text \<open>
  \<^verbatim>\<open>String.prototype.replace(searchValue, replaceValue)\<close> with a string (not a regular
  expression) as \<open>searchValue\<close>: the first occurrence of \<open>searchValue\<close>, scanning from the
  left, is replaced, and a string without an occurrence is returned as it is. The only
  call in \<^verbatim>\<open>bin/app.ts\<close> passes \<^verbatim>\<open>''\<close> as \<open>replaceValue\<close>, so the \<^verbatim>\<open>$\<close>-patterns of a
  replacement string play no role.
\<close>

fun replace :: "string \<Rightarrow> string \<Rightarrow> string \<Rightarrow> string" where
  "replace [] searchValue replaceValue = (if searchValue = [] then replaceValue else [])"
| "replace (c # cs) searchValue replaceValue =
     (if prefix searchValue (c # cs)
      then replaceValue @ drop (length searchValue) (c # cs)
      else c # replace cs searchValue replaceValue)"

text \<open>
  A template literal \<^verbatim>\<open>`${x}...`\<close> converts \<open>x\<close> to a string; an unset environment variable
  is \<^verbatim>\<open>undefined\<close> and prints as the word.
\<close>

fun interpolate :: "string option \<Rightarrow> string" where
  "interpolate None = ''undefined''"
| "interpolate (Some s) = s"

section \<open>Data model: the constructs of \<^verbatim>\<open>bin/app.ts\<close>\<close>

text \<open>
  A string-typed attribute of a construct is either known when the template is built
  or a reference resolved at deploy time. \<^verbatim>\<open>serviceRole.roleArn\<close> and \<^verbatim>\<open>deployUser.userName\<close>
  are of the second kind: the ARN of the role is the attribute \<^verbatim>\<open>Arn\<close> of the role
  construct, and the name of the user is a reference to the user construct.
\<close>

datatype strval = Literal string | GetAtt string string | Ref string

datatype Effect = ALLOW | DENY

datatype Principal =
    ServicePrincipal string
  | AccountPrincipal string
  | ArnPrincipal string
  | AnyPrincipal

record PolicyStatement =
  effect :: Effect
  resources :: "strval list"
  actions :: "string list"

record Role =
  roleId :: string
  assumedBy :: Principal
  rolePolicy :: "PolicyStatement list"

record Group =
  groupId :: string
  groupPolicy :: "PolicyStatement list"

record User =
  userId :: string
  userName :: string
  userGroups :: "string list"

record CfnOutput =
  outputId :: string
  outputValue :: strval
  outputDescription :: string
  exportName :: "string option"

record StringParameter =
  parameterId :: string
  parameterName :: string
  parameterDescription :: string
  stringValue :: string

record Stack =
  stackRole :: Role
  stackUser :: User
  stackGroup :: Group
  outputs :: "CfnOutput list"
  parameters :: "StringParameter list"

text \<open>\<^verbatim>\<open>new Role(this, id, { assumedBy })\<close>: a role with no statement attached yet.\<close>

definition newRole :: "string \<Rightarrow> Principal \<Rightarrow> Role" where
  "newRole ident p = \<lparr>roleId = ident, assumedBy = p, rolePolicy = []\<rparr>"

definition roleArn :: "Role \<Rightarrow> strval" where
  "roleArn r = GetAtt (roleId r) ''Arn''"

text \<open>\<^verbatim>\<open>addToPolicy\<close> appends: statements keep the order of the calls.\<close>

definition Role_addToPolicy :: "Role \<Rightarrow> PolicyStatement \<Rightarrow> Role" where
  "Role_addToPolicy r st = r\<lparr>rolePolicy := rolePolicy r @ [st]\<rparr>"

definition newGroup :: "string \<Rightarrow> Group" where
  "newGroup ident = \<lparr>groupId = ident, groupPolicy = []\<rparr>"

definition Group_addToPolicy :: "Group \<Rightarrow> PolicyStatement \<Rightarrow> Group" where
  "Group_addToPolicy g st = g\<lparr>groupPolicy := groupPolicy g @ [st]\<rparr>"

definition newUser :: "string \<Rightarrow> string \<Rightarrow> User" where
  "newUser ident name = \<lparr>userId = ident, userName = name, userGroups = []\<rparr>"

definition userNameAttr :: "User \<Rightarrow> strval" where
  "userNameAttr u = Ref (userId u)"

definition addToGroup :: "User \<Rightarrow> Group \<Rightarrow> User" where
  "addToGroup u g = u\<lparr>userGroups := userGroups u @ [groupId g]\<rparr>"

section \<open>What the library does with the names\<close>

text \<open>
  \<^verbatim>\<open>bin/app.ts\<close> extends \<^verbatim>\<open>cdk.Stack\<close> and calls \<^verbatim>\<open>super(scope, id, props)\<close> on line 20. The
  library \<^verbatim>\<open>@aws-cdk/core\<close> is not part of the repository; two of its steps decide what the
  constructor does with a name and are written out here. The constructor of \<^verbatim>\<open>cdk.Stack\<close>
  throws unless the stack name matches \<^verbatim>\<open>/^[A-Za-z][A-Za-z0-9-]*$/\<close> and has at most 128
  characters.
\<close>

datatype error = InvalidStackName string

definition letters :: string where
  "letters = ''ABCDEFGHIJKLMNOPQRSTUVWXYZabcdefghijklmnopqrstuvwxyz''"

definition digits :: string where
  "digits = ''0123456789''"

fun validStackName :: "string \<Rightarrow> bool" where
  "validStackName [] = False"
| "validStackName (c # cs) =
     (c \<in> set letters \<and>
      list_all (\<lambda>d. d \<in> set letters \<or> d \<in> set digits \<or> d = CHR ''-'') cs \<and>
      length (c # cs) \<le> 128)"

text \<open>
  The identifier of a construct has every path separator \<^verbatim>\<open>/\<close> replaced by \<^verbatim>\<open>--\<close>; a stack
  that is created right under the app, with no \<^verbatim>\<open>stackName\<close> in its \<^verbatim>\<open>props\<close>, is named by
  its identifier.
\<close>

fun sanitizeId :: "string \<Rightarrow> string" where
  "sanitizeId [] = []"
| "sanitizeId (c # cs) =
     (if c = CHR ''/'' then ''--'' @ sanitizeId cs else c # sanitizeId cs)"

section \<open>The stack \<^verbatim>\<open>ServiceDeployBootstrap\<close>\<close>

definition STACK_SUFFIX :: string where
  "STACK_SUFFIX = ''-deploy-bootstrap''"

definition version :: string where
  "version = ''1''"

text \<open>Line 24: \<^verbatim>\<open>stackName.replace(STACK_SUFFIX, '')\<close>.\<close>

definition serviceName :: "string \<Rightarrow> string" where
  "serviceName stackName = replace stackName STACK_SUFFIX ''''"

text \<open>
  Lines 28 to 37: the lists of resource patterns, each one template literal over the
  service name, the account and the region.
\<close>

definition cloudFormationResources :: "string \<Rightarrow> string \<Rightarrow> string \<Rightarrow> string list" where
  "cloudFormationResources sn accountId region =
     [''arn:aws:cloudformation:'' @ region @ '':'' @ accountId @ '':stack/'' @ sn @ ''*'']"

definition s3BucketResources :: "string \<Rightarrow> string list" where
  "s3BucketResources sn = [''arn:aws:s3:::'' @ sn @ ''*'']"

definition s3ObjectResources :: "string \<Rightarrow> string list" where
  "s3ObjectResources sn = [''arn:aws:s3:::'' @ sn @ ''*/*'']"

definition cloudWatchResources :: "string \<Rightarrow> string \<Rightarrow> string \<Rightarrow> string list" where
  "cloudWatchResources sn accountId region =
     [''arn:aws:logs:'' @ region @ '':'' @ accountId @ '':log-group:/aws/lambda/'' @ sn @ ''*'']"

definition lambdaResources :: "string \<Rightarrow> string \<Rightarrow> string \<Rightarrow> string list" where
  "lambdaResources sn accountId region =
     [''arn:aws:lambda:'' @ region @ '':'' @ accountId @ '':function:'' @ sn @ ''*'']"

definition stepFunctionResources :: "string \<Rightarrow> string \<Rightarrow> string \<Rightarrow> string list" where
  "stepFunctionResources sn accountId region =
     [''arn:aws:states:'' @ region @ '':'' @ accountId @ '':stateMachine:'' @ sn @ ''*'']"

definition iamResources :: "string \<Rightarrow> string \<Rightarrow> string list" where
  "iamResources sn accountId = [''arn:aws:iam::'' @ accountId @ '':role/'' @ sn @ ''*'']"

definition cloudFormationStackResource :: string where
  "cloudFormationStackResource = ''''"

definition s3DeploymentResources :: "string \<Rightarrow> string list" where
  "s3DeploymentResources sn = [''arn:aws:s3:::'' @ sn @ ''*deploymentbucket*'']"

definition parameterNameOf :: "string \<Rightarrow> string" where
  "parameterNameOf sn = ''/serverless-deploy-bootstrap/'' @ sn @ ''/version''"

text \<open>\<^verbatim>\<open>new PolicyStatement({ effect: Effect.ALLOW, resources, actions })\<close>.\<close>

definition allow :: "string list \<Rightarrow> string list \<Rightarrow> PolicyStatement" where
  "allow rs acts = \<lparr>effect = ALLOW, resources = map Literal rs, actions = acts\<rparr>"

text \<open>Lines 39 to 151: the service role and its seven \<^verbatim>\<open>addToPolicy\<close> calls, in order.\<close>

definition serviceRole :: "string \<Rightarrow> string \<Rightarrow> string \<Rightarrow> Role" where
  "serviceRole sn accountId region =
    (let r0 = newRole (''ServiceRole-v'' @ version) (ServicePrincipal ''cloudformation.amazonaws.com'');
         r1 = Role_addToPolicy r0 (allow (s3ObjectResources sn)
                [''s3:PutObject'', ''s3:DeleteObject'']);
         r2 = Role_addToPolicy r1 (allow (s3BucketResources sn)
                [''s3:*'']);
         r3 = Role_addToPolicy r2 (allow (cloudWatchResources sn accountId region)
                [''logs:CreateLogGroup'', ''logs:DescribeLogGroup'', ''logs:DeleteLogGroup'',
                 ''logs:CreateLogStream'', ''logs:DescribeLogStreams'', ''logs:DeleteLogStream'',
                 ''logs:FilterLogEvents'']);
         r4 = Role_addToPolicy r3 (allow (lambdaResources sn accountId region)
                [''lambda:GetFunction'', ''lambda:CreateFunction'', ''lambda:DeleteFunction'',
                 ''lambda:UpdateFunctionConfiguration'', ''lambda:UpdateFunctionCode'',
                 ''lambda:ListVersionsByFunction'', ''lambda:PublishVersion'',
                 ''lambda:CreateAlias'', ''lambda:DeleteAlias'', ''lambda:UpdateAlias'',
                 ''lambda:GetFunctionConfiguration'', ''lambda:AddPermission'',
                 ''lambda:RemovePermission'', ''lambda:InvokeFunction'']);
         r5 = Role_addToPolicy r4 (allow (iamResources sn accountId)
                [''iam:PassRole'', ''iam:CreateRole'', ''iam:GetRole'', ''iam:DeleteRole'',
                 ''iam:GetRolePolicy'', ''iam:DeleteRolePolicy'', ''iam:PutRolePolicy'']);
         r6 = Role_addToPolicy r5 (allow (stepFunctionResources sn accountId region)
                [''dynamodb:CreateTable'', ''dynamodb:UpdateTable'', ''dynamodb:DeleteTable'']);
         r7 = Role_addToPolicy r6 (allow (stepFunctionResources sn accountId region)
                [''states:CreateStateMachine'', ''states:DeleteStateMachine'',
                 ''states:DescribeStateMachine'', ''states:TagResource''])
     in r7)"

text \<open>Lines 153 to 155: the deploy user.\<close>

definition deployUser :: "string \<Rightarrow> User" where
  "deployUser sn = newUser ''DeployUser'' (sn @ ''-deployer'')"

text \<open>Lines 157 to 215: the deploy group and its five \<^verbatim>\<open>addToPolicy\<close> calls, in order.\<close>

definition deployGroup :: "string \<Rightarrow> string \<Rightarrow> string \<Rightarrow> Group" where
  "deployGroup sn accountId region =
    (let g0 = newGroup (sn @ ''-deployers'');
         g1 = Group_addToPolicy g0 (allow [''*'']
                [''cloudformation:ValidateTemplate'']);
         g2 = Group_addToPolicy g1 (allow (cloudFormationResources sn accountId region)
                [''cloudformation:CreateStack'', ''cloudformation:DescribeStacks'',
                 ''cloudformation:DeleteStack'', ''cloudformation:DescribeStackEvents'',
                 ''cloudformation:UpdateStack'', ''cloudformation:ListStackResources'',
                 ''cloudformation:DescribeStackResource'']);
         g3 = Group_addToPolicy g2 (allow (lambdaResources sn accountId region)
                [''lambda:GetFunction'']);
         g4 = Group_addToPolicy g3
                \<lparr>effect = ALLOW,
                 resources = [roleArn (serviceRole sn accountId region)],
                 actions = [''iam:PassRole'']\<rparr>;
         g5 = Group_addToPolicy g4 (allow (s3DeploymentResources sn)
                [''s3:*''])
     in g5)"

text \<open>
  The constructor, lines 19 to 243. Line 20 runs the constructor of the base class first,
  which throws on a stack name it does not accept; nothing is built then. The stack name,
  the account and the region are what \<^verbatim>\<open>cdk.Stack.of(this)\<close> hands back afterwards, taken
  here as three strings. Lines 22 to 243 have no \<^verbatim>\<open>throw\<close> of their own.
\<close>

definition ServiceDeployBootstrap :: "string \<Rightarrow> string \<Rightarrow> string \<Rightarrow> error + Stack" where
  "ServiceDeployBootstrap stackName accountId region =
    (if \<not> validStackName stackName then Inl (InvalidStackName stackName)
     else
       let sn = serviceName stackName;
           sr = serviceRole sn accountId region;
           du = deployUser sn;
           dg = deployGroup sn accountId region;
           du = addToGroup du dg
       in Inr \<lparr>stackRole = sr, stackUser = du, stackGroup = dg,
          outputs =
            [\<lparr>outputId = ''DeployUserName'', outputValue = userNameAttr du,
              outputDescription = ''PublisherUser'', exportName = None\<rparr>,
             \<lparr>outputId = ''DeployRoleArn'', outputValue = roleArn sr,
              outputDescription = ''The ARN of the CloudFormation service role'',
              exportName = Some ''DeployRoleArn''\<rparr>,
             \<lparr>outputId = ''BootstrapVersion'', outputValue = Literal version,
              outputDescription =
                ''The version of the bootstrap resources that are currently provisioned in this stack'',
              exportName = Some ''BootstrapVersion''\<rparr>],
          parameters =
            [\<lparr>parameterId = ''ServerlessDeployBootstrapVersion'',
              parameterName = parameterNameOf sn,
              parameterDescription = ''The version of the serverless-deploy-bootrap resources'',
              stringValue = version\<rparr>]\<rparr>)"

text \<open>
  Lines 14 and 247 to 248: the program reads \<^verbatim>\<open>SERVICE_NAME\<close> from the environment and
  creates the stack under the app with the identifier \<^verbatim>\<open>`${SERVICE_NAME}${STACK_SUFFIX}`\<close>.
\<close>

definition app :: "string option \<Rightarrow> string \<Rightarrow> string \<Rightarrow> error + Stack" where
  "app SERVICE_NAME accountId region =
     ServiceDeployBootstrap (sanitizeId (interpolate SERVICE_NAME @ STACK_SUFFIX)) accountId region"

section \<open>Notions of the specification\<close>

text \<open>
  A resource is a wildcard when it is written out in the template and holds one of the
  two wildcard characters of a policy resource. A reference to a construct stands for
  one resource.
\<close>

fun isWildcard :: "strval \<Rightarrow> bool" where
  "isWildcard (Literal s) = (CHR ''*'' \<in> set s \<or> CHR ''?'' \<in> set s)"
| "isWildcard (GetAtt c a) = False"
| "isWildcard (Ref c) = False"

text \<open>A resource is scoped by a service name when it is a pattern that holds the name.\<close>

fun scopedBy :: "string \<Rightarrow> strval \<Rightarrow> bool" where
  "scopedBy sn (Literal p) = sublist sn p"
| "scopedBy sn (GetAtt c a) = False"
| "scopedBy sn (Ref c) = False"

section \<open>Evaluation helpers\<close>

lemmas pattern_defs =
  cloudFormationResources_def s3BucketResources_def s3ObjectResources_def
  cloudWatchResources_def lambdaResources_def stepFunctionResources_def
  iamResources_def s3DeploymentResources_def parameterNameOf_def

lemmas construct_defs =
  newRole_def roleArn_def Role_addToPolicy_def newGroup_def Group_addToPolicy_def
  newUser_def userNameAttr_def addToGroup_def allow_def version_def

lemmas build_defs =
  ServiceDeployBootstrap_def deployGroup_def serviceRole_def deployUser_def
  construct_defs Let_def

lemmas name_defs = letters_def digits_def STACK_SUFFIX_def serviceName_def



text \<open>
  The suffix has no border: none of its proper non-empty endings is one of its
  beginnings. So an occurrence of the suffix in \<open>u @ STACK_SUFFIX\<close> that
  starts at the first character of a non-empty \<open>u\<close> lies inside \<open>u\<close>.
\<close>

lemma suffix_unbordered:
  "\<forall>k \<in> set [1..<17]. \<not> prefix (drop k STACK_SUFFIX) STACK_SUFFIX"
  unfolding STACK_SUFFIX_def by code_simp

lemma suffix_length: "length STACK_SUFFIX = 17"
  by (simp add: STACK_SUFFIX_def)

lemma suffix_overlap:
  assumes "prefix STACK_SUFFIX (u @ STACK_SUFFIX)" and "u \<noteq> []"
  shows "prefix STACK_SUFFIX u"
proof -
  from assms(1) consider "prefix STACK_SUFFIX u"
    | us where "STACK_SUFFIX = u @ us" "prefix us STACK_SUFFIX"
    by (auto simp: prefix_append)
  then show ?thesis
  proof cases
    case 1
    then show ?thesis .
  next
    case 2
    from 2(1) have us: "us = drop (length u) STACK_SUFFIX"
      by (metis append_eq_conv_conj)
    from 2(1) have len: "length u + length us = 17"
      by (metis length_append suffix_length)
    show ?thesis
    proof (cases "length u = 17")
      case True
      with len have "us = []" by simp
      with 2(1) show ?thesis by simp
    next
      case False
      with len assms(2) have "length u \<in> set [1..<17]"
        by (cases u) auto
      with suffix_unbordered
      have "\<not> prefix (drop (length u) STACK_SUFFIX) STACK_SUFFIX" by blast
      with us 2(2) show ?thesis by simp
    qed
  qed
qed

text \<open>
  When the name the stack was made from holds neither the suffix nor a path separator,
  removing the first occurrence of the suffix from the stack name gives the name back.
\<close>

lemma replace_appended_suffix:
  "\<not> sublist STACK_SUFFIX s \<Longrightarrow> replace (s @ STACK_SUFFIX) STACK_SUFFIX [] = s"
proof (induction s)
  case Nil
  then show ?case by (simp add: STACK_SUFFIX_def)
next
  case (Cons c cs)
  from Cons.prems have np: "\<not> prefix STACK_SUFFIX (c # cs)"
    and ns: "\<not> sublist STACK_SUFFIX cs"
    by (simp_all add: sublist_Cons_right)
  from np suffix_overlap [of "c # cs"]
  have "\<not> prefix STACK_SUFFIX (c # cs @ STACK_SUFFIX)"
    by auto
  with Cons.IH [OF ns] show ?case by simp
qed

lemma sanitizeId_plain: "CHR ''/'' \<notin> set s \<Longrightarrow> sanitizeId s = s"
  by (induction s) auto

lemma serviceName_recovers_SERVICE_NAME:
  assumes "\<not> sublist STACK_SUFFIX s" and "CHR ''/'' \<notin> set s"
  shows "serviceName (sanitizeId (interpolate (Some s) @ STACK_SUFFIX)) = s"
proof -
  have "CHR ''/'' \<notin> set (s @ STACK_SUFFIX)"
    using assms(2) by (simp add: STACK_SUFFIX_def)
  then have "sanitizeId (s @ STACK_SUFFIX) = s @ STACK_SUFFIX"
    by (rule sanitizeId_plain)
  with assms(1) show ?thesis
    by (simp add: serviceName_def replace_appended_suffix)
qed



text \<open>
  On a name the base class accepts the constructor returns a stack, made of the role and
  the group built above.
\<close>

lemma stack_built:
  "validStackName stackName \<Longrightarrow> \<exists>t. ServiceDeployBootstrap stackName accountId region = Inr t"
  by (simp add: ServiceDeployBootstrap_def Let_def)

lemma stack_parts:
  "ServiceDeployBootstrap stackName accountId region = Inr t \<Longrightarrow>
     stackRole t = serviceRole (serviceName stackName) accountId region \<and>
     stackGroup t = deployGroup (serviceName stackName) accountId region"
  by (auto simp: ServiceDeployBootstrap_def Let_def split: if_splits)

text \<open>Each of the eight patterns holds the service name.\<close>

lemma patterns_scoped:
  "p \<in> set (cloudFormationResources sn accountId region) \<Longrightarrow> sublist sn p"
  "p \<in> set (s3BucketResources sn) \<Longrightarrow> sublist sn p"
  "p \<in> set (s3ObjectResources sn) \<Longrightarrow> sublist sn p"
  "p \<in> set (cloudWatchResources sn accountId region) \<Longrightarrow> sublist sn p"
  "p \<in> set (lambdaResources sn accountId region) \<Longrightarrow> sublist sn p"
  "p \<in> set (stepFunctionResources sn accountId region) \<Longrightarrow> sublist sn p"
  "p \<in> set (iamResources sn accountId) \<Longrightarrow> sublist sn p"
  "p \<in> set (s3DeploymentResources sn) \<Longrightarrow> sublist sn p"
  using
    sublist_appendI [of sn "''arn:aws:cloudformation:'' @ region @ '':'' @ accountId @ '':stack/''" "''*''"]
    sublist_appendI [of sn "''arn:aws:s3:::''" "''*''"]
    sublist_appendI [of sn "''arn:aws:s3:::''" "''*/*''"]
    sublist_appendI [of sn "''arn:aws:logs:'' @ region @ '':'' @ accountId @ '':log-group:/aws/lambda/''" "''*''"]
    sublist_appendI [of sn "''arn:aws:lambda:'' @ region @ '':'' @ accountId @ '':function:''" "''*''"]
    sublist_appendI [of sn "''arn:aws:states:'' @ region @ '':'' @ accountId @ '':stateMachine:''" "''*''"]
    sublist_appendI [of sn "''arn:aws:iam::'' @ accountId @ '':role/''" "''*''"]
    sublist_appendI [of sn "''arn:aws:s3:::''" "''*deploymentbucket*''"]
  by (simp_all add: pattern_defs)

lemma role_resources_scoped:
  "st \<in> set (rolePolicy (serviceRole sn accountId region)) \<Longrightarrow>
   r \<in> set (resources st) \<Longrightarrow> scopedBy sn r"
  apply (auto simp: serviceRole_def construct_defs Let_def)
  apply (erule patterns_scoped)+
  done

lemma group_resources_scoped:
  "st \<in> set (groupPolicy (deployGroup sn accountId region)) \<Longrightarrow>
   actions st \<noteq> [''cloudformation:ValidateTemplate''] \<Longrightarrow>
   actions st \<noteq> [''iam:PassRole''] \<Longrightarrow>
   r \<in> set (resources st) \<Longrightarrow> scopedBy sn r"
  apply (auto simp: deployGroup_def construct_defs Let_def)
  apply (erule patterns_scoped)+
  done

text \<open>The resources of the statements, written out, in the order of the statements.\<close>

lemma role_resources:
  "map resources (rolePolicy (serviceRole sn accountId region)) =
     [[Literal (''arn:aws:s3:::'' @ sn @ ''*/*'')],
      [Literal (''arn:aws:s3:::'' @ sn @ ''*'')],
      [Literal (''arn:aws:logs:'' @ region @ '':'' @ accountId @ '':log-group:/aws/lambda/'' @ sn @ ''*'')],
      [Literal (''arn:aws:lambda:'' @ region @ '':'' @ accountId @ '':function:'' @ sn @ ''*'')],
      [Literal (''arn:aws:iam::'' @ accountId @ '':role/'' @ sn @ ''*'')],
      [Literal (''arn:aws:states:'' @ region @ '':'' @ accountId @ '':stateMachine:'' @ sn @ ''*'')],
      [Literal (''arn:aws:states:'' @ region @ '':'' @ accountId @ '':stateMachine:'' @ sn @ ''*'')]]"
  by (simp add: serviceRole_def construct_defs pattern_defs Let_def)

lemma group_resources:
  "map resources (groupPolicy (deployGroup sn accountId region)) =
     [[Literal ''*''],
      [Literal (''arn:aws:cloudformation:'' @ region @ '':'' @ accountId @ '':stack/'' @ sn @ ''*'')],
      [Literal (''arn:aws:lambda:'' @ region @ '':'' @ accountId @ '':function:'' @ sn @ ''*'')],
      [roleArn (serviceRole sn accountId region)],
      [Literal (''arn:aws:s3:::'' @ sn @ ''*deploymentbucket*'')]]"
  by (simp add: deployGroup_def serviceRole_def construct_defs pattern_defs Let_def)

section \<open>The deploy group's pass-role statement\<close>

text \<open>
  Claim C1. For every stack name the base class accepts, and every account and region,
  the constructor returns a stack whose deploy group has one statement that allows
  \<^verbatim>\<open>iam:PassRole\<close>; its resource list is the one-element list of the ARN of the service role
  of the same stack, a reference to the construct \<^verbatim>\<open>ServiceRole-v1\<close>, and that resource is
  no wildcard.
\<close>

theorem passrole_resources_are_the_service_role:
  "validStackName stackName \<Longrightarrow>
   \<exists>t. ServiceDeployBootstrap stackName accountId region = Inr t \<and>
     filter (\<lambda>st. ''iam:PassRole'' \<in> set (actions st)) (groupPolicy (stackGroup t)) =
       [\<lparr>effect = ALLOW, resources = [roleArn (stackRole t)], actions = [''iam:PassRole'']\<rparr>] \<and>
     roleArn (stackRole t) = GetAtt ''ServiceRole-v1'' ''Arn'' \<and>
     \<not> isWildcard (roleArn (stackRole t))"
  by (simp add: build_defs)

theorem passrole_resources_are_the_service_role_witness:
  "validStackName ''orders-api-deploy-bootstrap'' \<and>
   (\<exists>t. ServiceDeployBootstrap ''orders-api-deploy-bootstrap'' ''111111111111'' ''us-east-1'' = Inr t \<and>
     filter (\<lambda>st. ''iam:PassRole'' \<in> set (actions st)) (groupPolicy (stackGroup t)) =
       [\<lparr>effect = ALLOW, resources = [roleArn (stackRole t)], actions = [''iam:PassRole'']\<rparr>] \<and>
     roleArn (stackRole t) = GetAtt ''ServiceRole-v1'' ''Arn'' \<and>
     \<not> isWildcard (roleArn (stackRole t)))"
proof -
  have v: "validStackName ''orders-api-deploy-bootstrap''"
    by (simp add: name_defs)
  from v passrole_resources_are_the_service_role [OF v, of "''111111111111''" "''us-east-1''"]
  show ?thesis by (rule conjI)
qed

section \<open>Deriving the service name\<close>




text \<open>
  Claim C3 says that the suffix is removed at the end of the stack name even when it
  also occurs earlier. \<open>replace\<close> removes the first occurrence: with
  \<^verbatim>\<open>SERVICE_NAME=my-deploy-bootstrap-tool\<close> the stack name ends with the suffix, and the
  derived service name is \<^verbatim>\<open>my-tool-deploy-bootstrap\<close>, not the name the stack was made from.
\<close>

theorem suffix_removed_at_first_occurrence:
  "interpolate (Some ''my-deploy-bootstrap-tool'') @ STACK_SUFFIX
     = ''my-deploy-bootstrap-tool-deploy-bootstrap'' \<and>
   suffix STACK_SUFFIX ''my-deploy-bootstrap-tool-deploy-bootstrap'' \<and>
   serviceName ''my-deploy-bootstrap-tool-deploy-bootstrap'' = ''my-tool-deploy-bootstrap'' \<and>
   serviceName ''my-deploy-bootstrap-tool-deploy-bootstrap'' \<noteq> ''my-deploy-bootstrap-tool''"
  by (simp add: serviceName_def STACK_SUFFIX_def suffix_to_prefix)

section \<open>The service role\<close>

text \<open>
  Claim C4. For every stack name the base class accepts, and every account and region,
  the service role has seven statements, all of them allowing, in this order: S3 objects,
  S3 buckets, log groups, Lambda functions, IAM roles, DynamoDB tables and state
  machines, each with the actions of the source and the pattern list of the source. The
  sixth, the one of the table actions, has the state-machine pattern as its resource list.
\<close>

theorem service_role_has_seven_statements:
  "validStackName stackName \<Longrightarrow>
   \<exists>t. ServiceDeployBootstrap stackName accountId region = Inr t \<and>
     length (rolePolicy (stackRole t)) = 7 \<and>
     map effect (rolePolicy (stackRole t)) = replicate 7 ALLOW \<and>
     map actions (rolePolicy (stackRole t)) =
       [[''s3:PutObject'', ''s3:DeleteObject''],
        [''s3:*''],
        [''logs:CreateLogGroup'', ''logs:DescribeLogGroup'', ''logs:DeleteLogGroup'',
         ''logs:CreateLogStream'', ''logs:DescribeLogStreams'', ''logs:DeleteLogStream'',
         ''logs:FilterLogEvents''],
        [''lambda:GetFunction'', ''lambda:CreateFunction'', ''lambda:DeleteFunction'',
         ''lambda:UpdateFunctionConfiguration'', ''lambda:UpdateFunctionCode'',
         ''lambda:ListVersionsByFunction'', ''lambda:PublishVersion'',
         ''lambda:CreateAlias'', ''lambda:DeleteAlias'', ''lambda:UpdateAlias'',
         ''lambda:GetFunctionConfiguration'', ''lambda:AddPermission'',
         ''lambda:RemovePermission'', ''lambda:InvokeFunction''],
        [''iam:PassRole'', ''iam:CreateRole'', ''iam:GetRole'', ''iam:DeleteRole'',
         ''iam:GetRolePolicy'', ''iam:DeleteRolePolicy'', ''iam:PutRolePolicy''],
        [''dynamodb:CreateTable'', ''dynamodb:UpdateTable'', ''dynamodb:DeleteTable''],
        [''states:CreateStateMachine'', ''states:DeleteStateMachine'',
         ''states:DescribeStateMachine'', ''states:TagResource'']] \<and>
     map resources (rolePolicy (stackRole t)) =
       map (map Literal)
         [s3ObjectResources (serviceName stackName),
          s3BucketResources (serviceName stackName),
          cloudWatchResources (serviceName stackName) accountId region,
          lambdaResources (serviceName stackName) accountId region,
          iamResources (serviceName stackName) accountId,
          stepFunctionResources (serviceName stackName) accountId region,
          stepFunctionResources (serviceName stackName) accountId region] \<and>
     resources (rolePolicy (stackRole t) ! 5) =
       [Literal (''arn:aws:states:'' @ region @ '':'' @ accountId @ '':stateMachine:'' @
                 serviceName stackName @ ''*'')]"
  by (simp add: build_defs stepFunctionResources_def eval_nat_numeral)

theorem service_role_has_seven_statements_witness:
  "validStackName ''orders-api-deploy-bootstrap'' \<and>
   (\<exists>t. ServiceDeployBootstrap ''orders-api-deploy-bootstrap'' ''111111111111'' ''us-east-1'' = Inr t \<and>
     length (rolePolicy (stackRole t)) = 7 \<and>
     map (\<lambda>st. hd (actions st)) (rolePolicy (stackRole t)) =
       [''s3:PutObject'', ''s3:*'', ''logs:CreateLogGroup'', ''lambda:GetFunction'',
        ''iam:PassRole'', ''dynamodb:CreateTable'', ''states:CreateStateMachine''] \<and>
     resources (rolePolicy (stackRole t) ! 5) =
       [Literal ''arn:aws:states:us-east-1:111111111111:stateMachine:orders-api*''])"
proof -
  have v: "validStackName ''orders-api-deploy-bootstrap''"
    by (simp add: name_defs)
  have n: "serviceName ''orders-api-deploy-bootstrap'' = ''orders-api''"
    by (simp add: name_defs)
  have "\<exists>t. ServiceDeployBootstrap ''orders-api-deploy-bootstrap'' ''111111111111'' ''us-east-1'' = Inr t \<and>
     length (rolePolicy (stackRole t)) = 7 \<and>
     map (\<lambda>st. hd (actions st)) (rolePolicy (stackRole t)) =
       [''s3:PutObject'', ''s3:*'', ''logs:CreateLogGroup'', ''lambda:GetFunction'',
        ''iam:PassRole'', ''dynamodb:CreateTable'', ''states:CreateStateMachine''] \<and>
     resources (rolePolicy (stackRole t) ! 5) =
       [Literal ''arn:aws:states:us-east-1:111111111111:stateMachine:orders-api*'']"
    using service_role_has_seven_statements [OF v, of "''111111111111''" "''us-east-1''"]
  proof (elim exE conjE)
    fix t
    assume t: "ServiceDeployBootstrap ''orders-api-deploy-bootstrap'' ''111111111111'' ''us-east-1'' = Inr t"
      and l: "length (rolePolicy (stackRole t)) = 7"
      and a: "map actions (rolePolicy (stackRole t)) =
       [[''s3:PutObject'', ''s3:DeleteObject''],
        [''s3:*''],
        [''logs:CreateLogGroup'', ''logs:DescribeLogGroup'', ''logs:DeleteLogGroup'',
         ''logs:CreateLogStream'', ''logs:DescribeLogStreams'', ''logs:DeleteLogStream'',
         ''logs:FilterLogEvents''],
        [''lambda:GetFunction'', ''lambda:CreateFunction'', ''lambda:DeleteFunction'',
         ''lambda:UpdateFunctionConfiguration'', ''lambda:UpdateFunctionCode'',
         ''lambda:ListVersionsByFunction'', ''lambda:PublishVersion'',
         ''lambda:CreateAlias'', ''lambda:DeleteAlias'', ''lambda:UpdateAlias'',
         ''lambda:GetFunctionConfiguration'', ''lambda:AddPermission'',
         ''lambda:RemovePermission'', ''lambda:InvokeFunction''],
        [''iam:PassRole'', ''iam:CreateRole'', ''iam:GetRole'', ''iam:DeleteRole'',
         ''iam:GetRolePolicy'', ''iam:DeleteRolePolicy'', ''iam:PutRolePolicy''],
        [''dynamodb:CreateTable'', ''dynamodb:UpdateTable'', ''dynamodb:DeleteTable''],
        [''states:CreateStateMachine'', ''states:DeleteStateMachine'',
         ''states:DescribeStateMachine'', ''states:TagResource'']]"
      and r: "resources (rolePolicy (stackRole t) ! 5) =
       [Literal (''arn:aws:states:'' @ ''us-east-1'' @ '':'' @ ''111111111111'' @ '':stateMachine:'' @
                 serviceName ''orders-api-deploy-bootstrap'' @ ''*'')]"
    have h: "map (\<lambda>st. hd (actions st)) (rolePolicy (stackRole t)) =
        map hd (map actions (rolePolicy (stackRole t)))"
      by simp
    have ha: "map (\<lambda>st. hd (actions st)) (rolePolicy (stackRole t)) =
       [''s3:PutObject'', ''s3:*'', ''logs:CreateLogGroup'', ''lambda:GetFunction'',
        ''iam:PassRole'', ''dynamodb:CreateTable'', ''states:CreateStateMachine'']"
      unfolding h a by simp
    have hr: "resources (rolePolicy (stackRole t) ! 5) =
       [Literal ''arn:aws:states:us-east-1:111111111111:stateMachine:orders-api*'']"
      unfolding r n by simp
    from t l ha hr show ?thesis by (intro exI [of _ t] conjI)
  qed
  with v show ?thesis by (rule conjI)
qed

text \<open>
  Claim C5. For every stack name the base class accepts, and every account and region,
  the service role is assumed by the service principal \<^verbatim>\<open>cloudformation.amazonaws.com\<close>;
  the role holds one principal, so there is no other.
\<close>

theorem service_role_trusts_cloudformation:
  "validStackName stackName \<Longrightarrow>
   \<exists>t. ServiceDeployBootstrap stackName accountId region = Inr t \<and>
     assumedBy (stackRole t) = ServicePrincipal ''cloudformation.amazonaws.com''"
  by (simp add: build_defs)

theorem service_role_trusts_cloudformation_witness:
  "validStackName ''orders-api-deploy-bootstrap'' \<and>
   (\<exists>t. ServiceDeployBootstrap ''orders-api-deploy-bootstrap'' ''111111111111'' ''us-east-1'' = Inr t \<and>
     assumedBy (stackRole t) = ServicePrincipal ''cloudformation.amazonaws.com'')"
proof -
  have v: "validStackName ''orders-api-deploy-bootstrap''"
    by (simp add: name_defs)
  from v service_role_trusts_cloudformation [OF v, of "''111111111111''" "''us-east-1''"]
  show ?thesis by (rule conjI)
qed

section \<open>Patterns of a concrete service\<close>

text \<open>
  Claim C6. For the service \<^verbatim>\<open>orders-api\<close> in region \<^verbatim>\<open>us-east-1\<close> of account
  \<^verbatim>\<open>111111111111\<close> the S3 object pattern, the Lambda pattern and the parameter name are
  the three strings of the scenario, and the stack \<^verbatim>\<open>orders-api-deploy-bootstrap\<close> carries
  them in its statements and its parameter.
\<close>

theorem orders_api_scenario:
  "s3ObjectResources ''orders-api'' = [''arn:aws:s3:::orders-api*/*''] \<and>
   lambdaResources ''orders-api'' ''111111111111'' ''us-east-1'' =
     [''arn:aws:lambda:us-east-1:111111111111:function:orders-api*''] \<and>
   parameterNameOf ''orders-api'' = ''/serverless-deploy-bootstrap/orders-api/version'' \<and>
   (\<exists>t. ServiceDeployBootstrap ''orders-api-deploy-bootstrap'' ''111111111111'' ''us-east-1'' = Inr t \<and>
     resources (rolePolicy (stackRole t) ! 0) = [Literal ''arn:aws:s3:::orders-api*/*''] \<and>
     resources (rolePolicy (stackRole t) ! 3) =
       [Literal ''arn:aws:lambda:us-east-1:111111111111:function:orders-api*''] \<and>
     resources (groupPolicy (stackGroup t) ! 2) =
       [Literal ''arn:aws:lambda:us-east-1:111111111111:function:orders-api*''] \<and>
     map parameterName (parameters t) = [''/serverless-deploy-bootstrap/orders-api/version''])"
  by (simp add: build_defs pattern_defs name_defs)

section \<open>Scope of the resources\<close>

text \<open>
  Claim C7, as stated, speaks of every resource pattern placed in any statement. The
  first statement of the deploy group, the one that allows template validation, has the
  resource \<^verbatim>\<open>*\<close>, which does not hold the service name \<^verbatim>\<open>orders-api\<close>.
\<close>

theorem validate_template_is_unscoped:
  "serviceName ''orders-api-deploy-bootstrap'' = ''orders-api'' \<and> ''orders-api'' \<noteq> [] \<and>
   \<not> isl (ServiceDeployBootstrap ''orders-api-deploy-bootstrap'' ''111111111111'' ''us-east-1'') \<and>
   Literal ''*'' \<in> set (resources (groupPolicy (stackGroup (projr
      (ServiceDeployBootstrap ''orders-api-deploy-bootstrap'' ''111111111111'' ''us-east-1''))) ! 0)) \<and>
   \<not> scopedBy ''orders-api'' (Literal ''*'')"
  by (simp add: build_defs name_defs sublist_Cons_right)

text \<open>
  Claim C7, amended. For every non-empty service name, derived from a stack name the
  base class accepts, the resource lists of the seven statements of the service role and
  of the five statements of the deploy group are the ones written out below. Every
  resource placed in a statement, other than the \<^verbatim>\<open>*\<close> of the template-validation statement
  and the service role's ARN of the pass-role statement, holds the service name at the
  documented place: right after the fixed head and followed by the wildcard in the
  CloudFormation, S3 bucket, S3 object, log-group, Lambda, state-machine and IAM
  patterns, and right after the head and before \<^verbatim>\<open>*deploymentbucket*\<close> in the
  deployment-bucket pattern. So each of them holds the service name as a substring.
\<close>

theorem scoped_resources_hold_the_service_name:
  assumes "validStackName stackName" and "serviceName stackName = sn" and "sn \<noteq> []"
  shows "\<exists>t. ServiceDeployBootstrap stackName accountId region = Inr t \<and>
    map resources (rolePolicy (stackRole t)) =
      [[Literal (''arn:aws:s3:::'' @ sn @ ''*/*'')],
       [Literal (''arn:aws:s3:::'' @ sn @ ''*'')],
       [Literal (''arn:aws:logs:'' @ region @ '':'' @ accountId @ '':log-group:/aws/lambda/'' @ sn @ ''*'')],
       [Literal (''arn:aws:lambda:'' @ region @ '':'' @ accountId @ '':function:'' @ sn @ ''*'')],
       [Literal (''arn:aws:iam::'' @ accountId @ '':role/'' @ sn @ ''*'')],
       [Literal (''arn:aws:states:'' @ region @ '':'' @ accountId @ '':stateMachine:'' @ sn @ ''*'')],
       [Literal (''arn:aws:states:'' @ region @ '':'' @ accountId @ '':stateMachine:'' @ sn @ ''*'')]] \<and>
    map resources (groupPolicy (stackGroup t)) =
      [[Literal ''*''],
       [Literal (''arn:aws:cloudformation:'' @ region @ '':'' @ accountId @ '':stack/'' @ sn @ ''*'')],
       [Literal (''arn:aws:lambda:'' @ region @ '':'' @ accountId @ '':function:'' @ sn @ ''*'')],
       [roleArn (stackRole t)],
       [Literal (''arn:aws:s3:::'' @ sn @ ''*deploymentbucket*'')]] \<and>
    map actions (groupPolicy (stackGroup t)) ! 0 = [''cloudformation:ValidateTemplate''] \<and>
    map actions (groupPolicy (stackGroup t)) ! 3 = [''iam:PassRole''] \<and>
    (\<forall>st \<in> set (rolePolicy (stackRole t)). \<forall>r \<in> set (resources st). scopedBy sn r) \<and>
    (\<forall>st \<in> set (groupPolicy (stackGroup t)).
        actions st \<noteq> [''cloudformation:ValidateTemplate''] \<and> actions st \<noteq> [''iam:PassRole'']
        \<longrightarrow> (\<forall>r \<in> set (resources st). scopedBy sn r))"
proof -
  obtain t where t: "ServiceDeployBootstrap stackName accountId region = Inr t"
    using stack_built [OF assms(1)] by blast
  note parts = stack_parts [OF t, unfolded assms(2)]
  have 1: "map resources (rolePolicy (stackRole t)) =
      [[Literal (''arn:aws:s3:::'' @ sn @ ''*/*'')],
       [Literal (''arn:aws:s3:::'' @ sn @ ''*'')],
       [Literal (''arn:aws:logs:'' @ region @ '':'' @ accountId @ '':log-group:/aws/lambda/'' @ sn @ ''*'')],
       [Literal (''arn:aws:lambda:'' @ region @ '':'' @ accountId @ '':function:'' @ sn @ ''*'')],
       [Literal (''arn:aws:iam::'' @ accountId @ '':role/'' @ sn @ ''*'')],
       [Literal (''arn:aws:states:'' @ region @ '':'' @ accountId @ '':stateMachine:'' @ sn @ ''*'')],
       [Literal (''arn:aws:states:'' @ region @ '':'' @ accountId @ '':stateMachine:'' @ sn @ ''*'')]]"
    using parts role_resources by simp
  have 2: "map resources (groupPolicy (stackGroup t)) =
      [[Literal ''*''],
       [Literal (''arn:aws:cloudformation:'' @ region @ '':'' @ accountId @ '':stack/'' @ sn @ ''*'')],
       [Literal (''arn:aws:lambda:'' @ region @ '':'' @ accountId @ '':function:'' @ sn @ ''*'')],
       [roleArn (stackRole t)],
       [Literal (''arn:aws:s3:::'' @ sn @ ''*deploymentbucket*'')]]"
    using parts group_resources by simp
  have 3: "map actions (groupPolicy (stackGroup t)) ! 0 = [''cloudformation:ValidateTemplate'']"
    "map actions (groupPolicy (stackGroup t)) ! 3 = [''iam:PassRole'']"
    using parts by (simp_all add: deployGroup_def construct_defs Let_def eval_nat_numeral)
  have 4: "\<forall>st \<in> set (rolePolicy (stackRole t)). \<forall>r \<in> set (resources st). scopedBy sn r"
    using parts role_resources_scoped by simp
  have 5: "\<forall>st \<in> set (groupPolicy (stackGroup t)).
        actions st \<noteq> [''cloudformation:ValidateTemplate''] \<and> actions st \<noteq> [''iam:PassRole'']
        \<longrightarrow> (\<forall>r \<in> set (resources st). scopedBy sn r)"
    using parts group_resources_scoped by simp
  from t 1 2 3 4 5 show ?thesis by (intro exI [of _ t] conjI)
qed

theorem scoped_resources_hold_the_service_name_witness:
  "validStackName ''orders-api-deploy-bootstrap'' \<and>
   serviceName ''orders-api-deploy-bootstrap'' = ''orders-api'' \<and> ''orders-api'' \<noteq> [] \<and>
   (\<exists>t. ServiceDeployBootstrap ''orders-api-deploy-bootstrap'' ''111111111111'' ''us-east-1'' = Inr t \<and>
     map resources (rolePolicy (stackRole t)) =
       [[Literal ''arn:aws:s3:::orders-api*/*''],
        [Literal ''arn:aws:s3:::orders-api*''],
        [Literal ''arn:aws:logs:us-east-1:111111111111:log-group:/aws/lambda/orders-api*''],
        [Literal ''arn:aws:lambda:us-east-1:111111111111:function:orders-api*''],
        [Literal ''arn:aws:iam::111111111111:role/orders-api*''],
        [Literal ''arn:aws:states:us-east-1:111111111111:stateMachine:orders-api*''],
        [Literal ''arn:aws:states:us-east-1:111111111111:stateMachine:orders-api*'']] \<and>
     map resources (groupPolicy (stackGroup t)) =
       [[Literal ''*''],
        [Literal ''arn:aws:cloudformation:us-east-1:111111111111:stack/orders-api*''],
        [Literal ''arn:aws:lambda:us-east-1:111111111111:function:orders-api*''],
        [roleArn (stackRole t)],
        [Literal ''arn:aws:s3:::orders-api*deploymentbucket*'']] \<and>
     list_all (\<lambda>st. list_all (scopedBy ''orders-api'') (resources st)) (rolePolicy (stackRole t)))"
proof -
  have v: "validStackName ''orders-api-deploy-bootstrap''"
    by (simp add: name_defs)
  have a: "serviceName ''orders-api-deploy-bootstrap'' = ''orders-api''"
    by (simp add: name_defs)
  have b: "''orders-api'' \<noteq> []" by simp
  have e: "\<exists>t. ServiceDeployBootstrap ''orders-api-deploy-bootstrap'' ''111111111111'' ''us-east-1'' = Inr t \<and>
     map resources (rolePolicy (stackRole t)) =
       [[Literal ''arn:aws:s3:::orders-api*/*''],
        [Literal ''arn:aws:s3:::orders-api*''],
        [Literal ''arn:aws:logs:us-east-1:111111111111:log-group:/aws/lambda/orders-api*''],
        [Literal ''arn:aws:lambda:us-east-1:111111111111:function:orders-api*''],
        [Literal ''arn:aws:iam::111111111111:role/orders-api*''],
        [Literal ''arn:aws:states:us-east-1:111111111111:stateMachine:orders-api*''],
        [Literal ''arn:aws:states:us-east-1:111111111111:stateMachine:orders-api*'']] \<and>
     map resources (groupPolicy (stackGroup t)) =
       [[Literal ''*''],
        [Literal ''arn:aws:cloudformation:us-east-1:111111111111:stack/orders-api*''],
        [Literal ''arn:aws:lambda:us-east-1:111111111111:function:orders-api*''],
        [roleArn (stackRole t)],
        [Literal ''arn:aws:s3:::orders-api*deploymentbucket*'']] \<and>
     list_all (\<lambda>st. list_all (scopedBy ''orders-api'') (resources st)) (rolePolicy (stackRole t))"
    using scoped_resources_hold_the_service_name [OF v a b, of "''111111111111''" "''us-east-1''"]
  proof (elim exE conjE)
    fix t
    assume t: "ServiceDeployBootstrap ''orders-api-deploy-bootstrap'' ''111111111111'' ''us-east-1'' = Inr t"
      and 1: "map resources (rolePolicy (stackRole t)) =
      [[Literal (''arn:aws:s3:::'' @ ''orders-api'' @ ''*/*'')],
       [Literal (''arn:aws:s3:::'' @ ''orders-api'' @ ''*'')],
       [Literal (''arn:aws:logs:'' @ ''us-east-1'' @ '':'' @ ''111111111111'' @ '':log-group:/aws/lambda/'' @ ''orders-api'' @ ''*'')],
       [Literal (''arn:aws:lambda:'' @ ''us-east-1'' @ '':'' @ ''111111111111'' @ '':function:'' @ ''orders-api'' @ ''*'')],
       [Literal (''arn:aws:iam::'' @ ''111111111111'' @ '':role/'' @ ''orders-api'' @ ''*'')],
       [Literal (''arn:aws:states:'' @ ''us-east-1'' @ '':'' @ ''111111111111'' @ '':stateMachine:'' @ ''orders-api'' @ ''*'')],
       [Literal (''arn:aws:states:'' @ ''us-east-1'' @ '':'' @ ''111111111111'' @ '':stateMachine:'' @ ''orders-api'' @ ''*'')]]"
      and 2: "map resources (groupPolicy (stackGroup t)) =
      [[Literal ''*''],
       [Literal (''arn:aws:cloudformation:'' @ ''us-east-1'' @ '':'' @ ''111111111111'' @ '':stack/'' @ ''orders-api'' @ ''*'')],
       [Literal (''arn:aws:lambda:'' @ ''us-east-1'' @ '':'' @ ''111111111111'' @ '':function:'' @ ''orders-api'' @ ''*'')],
       [roleArn (stackRole t)],
       [Literal (''arn:aws:s3:::'' @ ''orders-api'' @ ''*deploymentbucket*'')]]"
      and r: "\<forall>st \<in> set (rolePolicy (stackRole t)). \<forall>r \<in> set (resources st). scopedBy ''orders-api'' r"
    have 3: "list_all (\<lambda>st. list_all (scopedBy ''orders-api'') (resources st)) (rolePolicy (stackRole t))"
      using r by (simp add: list_all_iff)
    from 1 have rr: "map resources (rolePolicy (stackRole t)) =
       [[Literal ''arn:aws:s3:::orders-api*/*''],
        [Literal ''arn:aws:s3:::orders-api*''],
        [Literal ''arn:aws:logs:us-east-1:111111111111:log-group:/aws/lambda/orders-api*''],
        [Literal ''arn:aws:lambda:us-east-1:111111111111:function:orders-api*''],
        [Literal ''arn:aws:iam::111111111111:role/orders-api*''],
        [Literal ''arn:aws:states:us-east-1:111111111111:stateMachine:orders-api*''],
        [Literal ''arn:aws:states:us-east-1:111111111111:stateMachine:orders-api*'']]"
      by simp
    from 2 have gr: "map resources (groupPolicy (stackGroup t)) =
       [[Literal ''*''],
        [Literal ''arn:aws:cloudformation:us-east-1:111111111111:stack/orders-api*''],
        [Literal ''arn:aws:lambda:us-east-1:111111111111:function:orders-api*''],
        [roleArn (stackRole t)],
        [Literal ''arn:aws:s3:::orders-api*deploymentbucket*'']]"
      by simp
    from t rr gr 3 show ?thesis by (intro exI [of _ t] conjI)
  qed
  from v a b e show ?thesis by (intro conjI)
qed

section \<open>The version\<close>

text \<open>
  Claim C9. For every stack name the base class accepts, and every account and region,
  the output \<^verbatim>\<open>BootstrapVersion\<close> has the value \<^verbatim>\<open>1\<close> and so has the string parameter of the
  stack.
\<close>

theorem version_is_one:
  "validStackName stackName \<Longrightarrow>
   \<exists>t. ServiceDeployBootstrap stackName accountId region = Inr t \<and>
     map outputValue (filter (\<lambda>out. outputId out = ''BootstrapVersion'') (outputs t)) =
       [Literal ''1''] \<and>
     map stringValue (parameters t) = [''1'']"
  by (simp add: build_defs)

theorem version_is_one_witness:
  "validStackName ''orders-api-deploy-bootstrap'' \<and>
   (\<exists>t. ServiceDeployBootstrap ''orders-api-deploy-bootstrap'' ''111111111111'' ''us-east-1'' = Inr t \<and>
     map outputValue (filter (\<lambda>out. outputId out = ''BootstrapVersion'') (outputs t)) =
       [Literal ''1''] \<and>
     map stringValue (parameters t) = [''1''])"
proof -
  have v: "validStackName ''orders-api-deploy-bootstrap''"
    by (simp add: name_defs)
  from v version_is_one [OF v, of "''111111111111''" "''us-east-1''"]
  show ?thesis by (rule conjI)
qed

section \<open>The empty service name\<close>




end
